theory Spec2Isabelle
  imports Main "HOL-Library.Word" "HOL-Library.Sublist"
begin

section \<open>JavaScript strings and JSON values\<close>

text \<open>
  A JavaScript string is a sequence of UTF-16 code units. String literals of the source
  are written through \<open>lit\<close>; the one non-ASCII character of the source, the em dash
  U+2014 of the source line, is written as its code unit.
\<close>

type_synonym jsstring = "16 word list"

definition lit :: "string \<Rightarrow> jsstring" where
  "lit s = map of_char s"

text \<open>
  \<open>String.prototype.trim\<close> removes white space and line terminators from both ends:
  TAB, LF, VT, FF, CR, SP, NBSP, U+1680, U+2000..U+200A, U+2028, U+2029, U+202F, U+205F,
  U+3000 and U+FEFF.
\<close>

definition is_js_whitespace :: "16 word \<Rightarrow> bool" where
  "is_js_whitespace c =
     (c \<in> set [0x0009, 0x000A, 0x000B, 0x000C, 0x000D, 0x0020, 0x00A0, 0x1680,
                0x2000, 0x2001, 0x2002, 0x2003, 0x2004, 0x2005, 0x2006, 0x2007,
                0x2008, 0x2009, 0x200A, 0x2028, 0x2029, 0x202F, 0x205F, 0x3000, 0xFEFF])"

definition trim :: "jsstring \<Rightarrow> jsstring" where
  "trim s = rev (dropWhile is_js_whitespace (rev (dropWhile is_js_whitespace s)))"

text \<open>\<open>Array.prototype.join\<close> on an array of strings.\<close>

fun join :: "jsstring \<Rightarrow> jsstring list \<Rightarrow> jsstring" where
  "join sep [] = []"
| "join sep [x] = x"
| "join sep (x # y # ys) = x @ sep @ join sep (y # ys)"

text \<open>
  The value \<open>request.json()\<close> resolves with. A number carries the text that
  \<open>String\<close> renders it as; an object carries its properties in the order of the
  request text, a later duplicate key overriding an earlier one as \<open>JSON.parse\<close> does.
\<close>

datatype json =
    JNull
  | JBool bool
  | JNum jsstring
  | JStr jsstring
  | JArr "json list"
  | JObj "(jsstring \<times> json) list"

text \<open>
  \<open>body?.key\<close> for the keys the handler reads (\<open>message\<close>, \<open>scope\<close>, \<open>bookId\<close>,
  \<open>targetLanguage\<close>, none of which is a property of a primitive or of an array):
  \<open>None\<close> is \<open>undefined\<close>.
\<close>

fun get_prop :: "json \<Rightarrow> jsstring \<Rightarrow> json option" where
  "get_prop (JObj kvs) k = map_of (rev kvs) k"
| "get_prop _ k = None"

text \<open>\<open>v ?? d\<close>: the default replaces \<open>undefined\<close> and \<open>null\<close> only.\<close>

fun nullish :: "json option \<Rightarrow> json \<Rightarrow> json" where
  "nullish None d = d"
| "nullish (Some JNull) d = d"
| "nullish (Some v) d = v"

text \<open>
  \<open>String(v)\<close>; \<open>None\<close> when the call throws a TypeError. An array joins its elements
  with a comma, \<open>null\<close> elements as empty. An object is converted through its
  \<open>toString\<close>: the inherited one gives \<open>[object Object]\<close>; an own property of that name,
  which in a parsed body is never callable, leaves the inherited \<open>valueOf\<close>, which gives
  no primitive, and the conversion throws.
\<close>

fun js_String :: "json \<Rightarrow> jsstring option" where
  "js_String JNull = Some (lit ''null'')"
| "js_String (JBool b) = Some (if b then lit ''true'' else lit ''false'')"
| "js_String (JNum s) = Some s"
| "js_String (JStr s) = Some s"
| "js_String (JArr xs) =
     map_option (join (lit '',''))
       (those (map (\<lambda>x. if x = JNull then Some [] else js_String x) xs))"
| "js_String (JObj kvs) =
     (if lit ''toString'' \<in> set (map fst kvs) then None
      else Some (lit ''[object Object]''))"

section \<open>The collaborators of the chat handler\<close>

text \<open>
  \<open>translateToEnglish\<close>, \<open>findAnswer\<close> and \<open>translateFromEnglish\<close> are imported by the
  handler; here they are parameters. Each returns \<open>Inl e\<close> when the call throws or its
  promise rejects with \<open>e\<close>, and \<open>Inr v\<close> when it yields \<open>v\<close>.
\<close>

text \<open>
  What the handler ends with when it gives no response: the TypeError of \<open>String\<close>, or
  the exception of a collaborator.
\<close>

datatype 'e failure = TypeError | Raised 'e

record translation_result =
  tr_text :: jsstring
  tr_detected :: jsstring

record book_ref =
  book_id :: jsstring
  book_title :: jsstring

record qa_answer =
  qa_answer :: jsstring
  qa_book :: book_ref
  qa_section :: jsstring
  qa_supporting :: "jsstring list"

datatype scope = Book | Library

record find_options =
  opt_scope :: scope
  opt_bookId :: "jsstring option"

datatype call =
    TranslateToEnglish jsstring
  | FindAnswer jsstring find_options
  | TranslateFromEnglish jsstring jsstring

section \<open>The chat handler\<close>

record source_ref =
  src_id :: jsstring
  src_title :: jsstring
  src_section :: jsstring

record chat_response =
  answer :: jsstring
  baseAnswer :: jsstring
  targetLanguage :: jsstring
  detectedLanguage :: jsstring
  found :: bool
  source :: "source_ref option"

datatype response_body = ErrorBody jsstring | ChatBody chat_response

record http_response =
  status :: nat
  payload :: response_body

text \<open>The four values the handler reads from the request body.\<close>

definition req_message :: "json \<Rightarrow> jsstring option" where
  "req_message body =
     map_option trim (js_String (nullish (get_prop body (lit ''message'')) (JStr [])))"

definition req_scope :: "json \<Rightarrow> scope" where
  "req_scope body =
     (if get_prop body (lit ''scope'') = Some (JStr (lit ''book'')) then Book else Library)"

definition req_bookId :: "json \<Rightarrow> jsstring option" where
  "req_bookId body =
     (case get_prop body (lit ''bookId'') of Some (JStr s) \<Rightarrow> Some s | _ \<Rightarrow> None)"

definition req_targetLanguage :: "json \<Rightarrow> jsstring" where
  "req_targetLanguage body =
     (case get_prop body (lit ''targetLanguage'') of Some (JStr s) \<Rightarrow> s | _ \<Rightarrow> lit ''en'')"

definition fallbackAnswer :: jsstring where
  "fallbackAnswer = lit ''I could not find a precise passage in the library. Try refining your question with more context, such as a topic or chapter.''"

definition source_line :: "qa_answer \<Rightarrow> jsstring" where
  "source_line a =
     lit ''Source: '' @ book_title (qa_book a) @ [0x0020, 0x2014, 0x0020] @ qa_section a"

definition related_line :: "qa_answer \<Rightarrow> jsstring" where
  "related_line a =
     (if qa_supporting a \<noteq> []
      then lit ''Related context: '' @ join (lit '' / '') (qa_supporting a)
      else [])"

text \<open>\<open>baseAnswer\<close>: the three parts, the empty ones dropped, joined by a blank line.\<close>

definition compose_baseAnswer :: "qa_answer option \<Rightarrow> jsstring" where
  "compose_baseAnswer ans =
     (case ans of
        Some a \<Rightarrow>
          join [0x000A, 0x000A]
            (filter (\<lambda>s. s \<noteq> []) [qa_answer a, source_line a, related_line a])
      | None \<Rightarrow> fallbackAnswer)"

definition source_of :: "qa_answer option \<Rightarrow> source_ref option" where
  "source_of ans =
     (case ans of
        Some a \<Rightarrow>
          Some \<lparr>src_id = book_id (qa_book a), src_title = book_title (qa_book a),
                src_section = qa_section a\<rparr>
      | None \<Rightarrow> None)"

text \<open>
  \<open>POST\<close>, from the parsed body on. The result is the list of collaborator calls made,
  in order, and either the exception the handler ends with or its response.
\<close>

definition POST ::
  "(jsstring \<Rightarrow> 'e + translation_result) \<Rightarrow>
   (jsstring \<Rightarrow> find_options \<Rightarrow> 'e + qa_answer option) \<Rightarrow>
   (jsstring \<Rightarrow> jsstring \<Rightarrow> 'e + jsstring) \<Rightarrow>
   json \<Rightarrow> call list \<times> ('e failure + http_response)" where
  "POST translateToEnglish findAnswer translateFromEnglish body =
     (case req_message body of
        None \<Rightarrow> ([], Inl TypeError)
      | Some message \<Rightarrow>
     (let scope = req_scope body;
          bookId = req_bookId body;
          targetLanguage = req_targetLanguage body
      in if message = [] then
           ([], Inr \<lparr>status = 400, payload = ErrorBody (lit ''Message must not be empty.'')\<rparr>)
         else
           (case translateToEnglish message of
              Inl e \<Rightarrow> ([TranslateToEnglish message], Inl (Raised e))
            | Inr tr \<Rightarrow>
                (let englishQuestion = tr_text tr;
                     detected = tr_detected tr;
                     query = (if englishQuestion \<noteq> [] then englishQuestion else message);
                     opts = \<lparr>opt_scope = scope, opt_bookId = bookId\<rparr>
                 in case findAnswer query opts of
                      Inl e \<Rightarrow>
                        ([TranslateToEnglish message, FindAnswer query opts], Inl (Raised e))
                    | Inr ans \<Rightarrow>
                        (let base = compose_baseAnswer ans;
                             calls = [TranslateToEnglish message, FindAnswer query opts,
                                      TranslateFromEnglish base targetLanguage]
                         in case translateFromEnglish base targetLanguage of
                              Inl e \<Rightarrow> (calls, Inl (Raised e))
                            | Inr localizedAnswer \<Rightarrow>
                                (calls,
                                 Inr \<lparr>status = 200,
                                      payload = ChatBody
                                        \<lparr>answer = localizedAnswer,
                                         baseAnswer = base,
                                         targetLanguage = targetLanguage,
                                         detectedLanguage = detected,
                                         found = (ans \<noteq> None),
                                         source = source_of ans\<rparr>\<rparr>))))))"

section \<open>The retrieval engine and the translator\<close>

text \<open>
  The modules \<open>lib/qa\<close> and \<open>lib/translation\<close> are imported by the handler; what
  they compute is taken from the specification (sections 3, 4 and 7).
\<close>

text \<open>
  Modelled from the spec: the failures of section 7 that end a call of the engine or of
  the translator, absent from the sources. NoMatch is an ordinary result, not a failure.
\<close>

datatype error = InvalidScope | TranslationUnavailable

text \<open>
  A book with its sections, with the fields the dashboard declares for it
  (\<open>BookDetailPayload\<close>); the corpus is a list of books.
\<close>

record book_section =
  sec_heading :: jsstring
  sec_paragraphs :: "jsstring list"

record book =
  bk_id :: jsstring
  bk_title :: jsstring
  bk_author :: jsstring
  bk_year :: int
  bk_language :: jsstring
  bk_tags :: "jsstring list"
  bk_description :: jsstring
  bk_sections :: "book_section list"

type_synonym token = jsstring

text \<open>
  Modelled from the spec: the Index of section 3, absent from the sources. One entry per
  paragraph, in corpus order, with the paragraph's place (book, section and paragraph
  number), its owning book, its section heading, its text and its tokens.
\<close>

record entry =
  en_book :: book_ref
  en_bookIdx :: nat
  en_sectionIdx :: nat
  en_paragraphIdx :: nat
  en_heading :: jsstring
  en_text :: jsstring
  en_tokens :: "token list"

text \<open>
  Modelled from the spec: the entries of one section, numbered from 0 in paragraph order
  (section 4.2), absent from the sources.
\<close>

definition index_section ::
  "(jsstring \<Rightarrow> token list) \<Rightarrow> nat \<Rightarrow> book \<Rightarrow> nat \<Rightarrow> book_section \<Rightarrow> entry list" where
  "index_section norm bi b si s =
     map (\<lambda>(pi, p).
            \<lparr>en_book = \<lparr>book_id = bk_id b, book_title = bk_title b\<rparr>,
             en_bookIdx = bi, en_sectionIdx = si, en_paragraphIdx = pi,
             en_heading = sec_heading s, en_text = p, en_tokens = norm p\<rparr>)
         (enumerate 0 (sec_paragraphs s))"

text \<open>
  Modelled from the spec: the entries of one book, its sections numbered from 0 in section
  order (section 4.2), absent from the sources.
\<close>

definition index_book :: "(jsstring \<Rightarrow> token list) \<Rightarrow> nat \<Rightarrow> book \<Rightarrow> entry list" where
  "index_book norm bi b =
     concat (map (\<lambda>(si, s). index_section norm bi b si s) (enumerate 0 (bk_sections b)))"

text \<open>
  Modelled from the spec: \<open>build(corpus) -> Index\<close> of section 4.2, absent from the
  sources. The tokenizer of section 4.1, whose stop-word set the spec does not give, is the
  parameter \<open>norm\<close>. A section with no paragraphs contributes no entry.
\<close>

definition build :: "(jsstring \<Rightarrow> token list) \<Rightarrow> book list \<Rightarrow> entry list" where
  "build norm corpus =
     concat (map (\<lambda>(bi, b). index_book norm bi b) (enumerate 0 corpus))"

text \<open>Modelled from the spec: the AnswerCandidate of section 3, absent from the sources.\<close>

record 's candidate =
  cd_entry :: entry
  cd_score :: 's
  cd_supporting :: "jsstring list"

text \<open>
  Modelled from the spec: the parts of the engine that the spec leaves open, absent from
  the sources: the tokenizer, the relevance score of a paragraph for a query (section 4.3
  gives a formula, section 9 binds only the ranking), the minimum score, the number of
  supporting excerpts, their truncation, and the index built at start. What is proved of
  the engine holds for every choice of them.
\<close>

record 's engine =
  eg_normalize :: "jsstring \<Rightarrow> token list"
  eg_score :: "token list \<Rightarrow> entry \<Rightarrow> 's"
  eg_threshold :: 's
  eg_maxSupporting :: nat
  eg_truncate :: "jsstring \<Rightarrow> jsstring"
  eg_index :: "entry list"

text \<open>
  Modelled from the spec: scope semantics of section 4.3. \<open>scope = book\<close> keeps the
  paragraphs of the book with the requested id, \<open>scope = library\<close> keeps all.
\<close>

definition in_scope :: "find_options \<Rightarrow> entry \<Rightarrow> bool" where
  "in_scope opts e =
     (case opt_scope opts of
        Library \<Rightarrow> True
      | Book \<Rightarrow> opt_bookId opts = Some (book_id (en_book e)))"

text \<open>
  Modelled from the spec: a paragraph is a candidate for a query, or a supporting excerpt,
  when it holds at least one token of the query (section 4.3), absent from the sources.
\<close>

definition shares_token :: "token list \<Rightarrow> entry \<Rightarrow> bool" where
  "shares_token q e = list_ex (\<lambda>t. t \<in> set (en_tokens e)) q"

text \<open>
  Modelled from the spec: the tie-break order of section 4.3, absent from the sources:
  the earlier book, then the earlier section, then the earlier paragraph.
\<close>

definition place_le :: "entry \<Rightarrow> entry \<Rightarrow> bool" where
  "place_le e f =
     (en_bookIdx e < en_bookIdx f \<or>
      (en_bookIdx e = en_bookIdx f \<and>
       (en_sectionIdx e < en_sectionIdx f \<or>
        (en_sectionIdx e = en_sectionIdx f \<and> en_paragraphIdx e \<le> en_paragraphIdx f))))"

text \<open>
  Modelled from the spec: the ranking of section 4.3, best first, absent from the sources:
  the higher score, and at equal scores the tie-break order.
\<close>

definition ranks_before :: "('s::linorder) candidate \<Rightarrow> 's candidate \<Rightarrow> bool" where
  "ranks_before c d =
     (cd_score d < cd_score c \<or>
      (cd_score c = cd_score d \<and> place_le (cd_entry c) (cd_entry d)))"

text \<open>
  Modelled from the spec: the ordered candidate sequence of section 4.3, absent from the
  sources, built by inserting each candidate at its rank.
\<close>

fun insert_ranked :: "('s::linorder) candidate \<Rightarrow> 's candidate list \<Rightarrow> 's candidate list" where
  "insert_ranked c [] = [c]"
| "insert_ranked c (d # ds) =
     (if ranks_before c d then c # d # ds else d # insert_ranked c ds)"

text \<open>
  Modelled from the spec: the ranked list of section 4.3, best first, absent from the
  sources.
\<close>

fun rank :: "('s::linorder) candidate list \<Rightarrow> 's candidate list" where
  "rank [] = []"
| "rank (c # cs) = insert_ranked c (rank cs)"

text \<open>
  Modelled from the spec: the sibling paragraphs of section 4.3, absent from the sources:
  the other paragraphs of the same section of the same book.
\<close>

definition sibling :: "entry \<Rightarrow> entry \<Rightarrow> bool" where
  "sibling e f =
     (en_bookIdx f = en_bookIdx e \<and> en_sectionIdx f = en_sectionIdx e \<and>
      en_paragraphIdx f \<noteq> en_paragraphIdx e)"

text \<open>
  Modelled from the spec: the supporting excerpts of section 4.3, absent from the sources,
  for the top candidate only: its siblings that share a token with the query, at most
  \<open>eg_maxSupporting\<close> of them.
\<close>

definition attach_supporting ::
  "'s engine \<Rightarrow> token list \<Rightarrow> 's candidate list \<Rightarrow> 's candidate list" where
  "attach_supporting eng q cs =
     (case cs of
        [] \<Rightarrow> []
      | c # rest \<Rightarrow>
          c\<lparr>cd_supporting :=
               take (eg_maxSupporting eng)
                 (map en_text
                    (filter (\<lambda>f. sibling (cd_entry c) f \<and> shares_token q f) (eg_index eng)))\<rparr>
          # rest)"

text \<open>
  Modelled from the spec: \<open>search(queryTokens, scope)\<close> of section 4.3, absent from the
  sources. Book scope without a book id fails the call; a query with no token yields no
  candidate; otherwise the candidates are the paragraphs in scope that hold a query token,
  ranked.
\<close>

definition search ::
  "('s::linorder) engine \<Rightarrow> token list \<Rightarrow> find_options \<Rightarrow> error + 's candidate list" where
  "search eng q opts =
     (if opt_scope opts = Book \<and> opt_bookId opts = None then Inl InvalidScope
      else if q = [] then Inr []
      else
        Inr (attach_supporting eng q
               (rank
                  (map (\<lambda>e. \<lparr>cd_entry = e, cd_score = eg_score eng q e, cd_supporting = []\<rparr>)
                     (filter (\<lambda>e. in_scope opts e \<and> shares_token q e) (eg_index eng))))))"

text \<open>
  Modelled from the spec: \<open>compose(topCandidate, supporting) -> Answer | none\<close> of section
  4.4, absent from the sources: none unless the top candidate's score is above the
  threshold.
\<close>

definition compose :: "('s::linorder) engine \<Rightarrow> 's candidate list \<Rightarrow> qa_answer option" where
  "compose eng cs =
     (case cs of
        [] \<Rightarrow> None
      | c # rest \<Rightarrow>
          if eg_threshold eng < cd_score c then
            Some \<lparr>qa_answer = en_text (cd_entry c),
                  qa_book = en_book (cd_entry c),
                  qa_section = en_heading (cd_entry c),
                  qa_supporting = map (eg_truncate eng) (cd_supporting c)\<rparr>
          else None)"

text \<open>
  Modelled from the spec: \<open>findAnswer\<close> of \<open>lib/qa\<close>, absent from the sources: the
  steps tokenize, search and compose of section 2's data flow.
\<close>

definition findAnswer ::
  "('s::linorder) engine \<Rightarrow> jsstring \<Rightarrow> find_options \<Rightarrow> error + qa_answer option" where
  "findAnswer eng question opts =
     (case search eng (eg_normalize eng question) opts of
        Inl e \<Rightarrow> Inl e
      | Inr cs \<Rightarrow> Inr (compose eng cs))"

text \<open>
  Modelled from the spec: what a call of the translation backend comes to, absent from the
  sources: a translated text, a failure (unsupported language, backend unavailable,
  section 4.6), or no reply within the timeout that section 5 requires of every such call.
\<close>

datatype backend_result = Translated jsstring | Unavailable | NoReply

text \<open>
  Modelled from the spec: \<open>fromEnglish(text, targetLanguage) -> text\<close> of section 4.6
  (\<open>translateFromEnglish\<close> of \<open>lib/translation\<close>), absent from the sources. Target
  \<open>en\<close> is a no-op; any other target asks the translation backend, a parameter. A failure
  of the backend, and a timeout, which section 5 treats as a failure, make the call fail
  with TranslationUnavailable; the fallback is the orchestrator's (section 4.6).
\<close>

definition fromEnglish ::
  "(jsstring \<Rightarrow> jsstring \<Rightarrow> backend_result) \<Rightarrow> jsstring \<Rightarrow> jsstring \<Rightarrow> error + jsstring" where
  "fromEnglish backend txt target =
     (if target = lit ''en'' then Inr txt
      else (case backend txt target of
              Translated t \<Rightarrow> Inr t
            | Unavailable \<Rightarrow> Inl TranslationUnavailable
            | NoReply \<Rightarrow> Inl TranslationUnavailable))"

text \<open>
  Modelled from the spec: \<open>toEnglish(text) -> {text, detectedLanguage}\<close> of section 4.6
  (\<open>translateToEnglish\<close> of \<open>lib/translation\<close>), absent from the sources. The detector
  of section 4.5 yields a language code or unknown (\<open>None\<close>, reported as the empty
  string, section 9). English text, and text of unknown language that passes the
  English-likelihood check, passes through with the detected language reported; any other
  text goes to the backend, whose failure or timeout makes the call fail with
  TranslationUnavailable.
\<close>

definition toEnglish ::
  "(jsstring \<Rightarrow> jsstring option) \<Rightarrow> (jsstring \<Rightarrow> bool) \<Rightarrow>
   (jsstring \<Rightarrow> jsstring \<Rightarrow> backend_result) \<Rightarrow> jsstring \<Rightarrow> error + translation_result" where
  "toEnglish detect englishLike backend txt =
     (let d = detect txt;
          code = (case d of None \<Rightarrow> [] | Some l \<Rightarrow> l)
      in if d = Some (lit ''en'') \<or> (d = None \<and> englishLike txt) then
           Inr \<lparr>tr_text = txt, tr_detected = code\<rparr>
         else
           (case backend txt code of
              Translated t \<Rightarrow> Inr \<lparr>tr_text = t, tr_detected = code\<rparr>
            | Unavailable \<Rightarrow> Inl TranslationUnavailable
            | NoReply \<Rightarrow> Inl TranslationUnavailable))"

section \<open>Worked inputs\<close>

text \<open>
  A two-book corpus with an engine over it: tokens are the words between spaces, the
  score counts the query tokens found in the paragraph.
\<close>

fun words_acc :: "jsstring \<Rightarrow> jsstring \<Rightarrow> token list" where
  "words_acc cur [] = (if cur = [] then [] else [rev cur])"
| "words_acc cur (c # cs) =
     (if c = 0x0020
      then (if cur = [] then words_acc [] cs else rev cur # words_acc [] cs)
      else words_acc (c # cur) cs)"

definition space_words :: "jsstring \<Rightarrow> token list" where
  "space_words s = words_acc [] s"

definition overlap :: "token list \<Rightarrow> entry \<Rightarrow> nat" where
  "overlap q e = length (filter (\<lambda>t. t \<in> set (en_tokens e)) q)"

definition shelf :: "book list" where
  "shelf =
     [\<lparr>bk_id = lit ''atlas'', bk_title = lit ''Climate Atlas'', bk_author = lit ''A'',
       bk_year = 2020, bk_language = lit ''en'', bk_tags = [], bk_description = [],
       bk_sections =
         [\<lparr>sec_heading = lit ''Carbon Markets'', sec_paragraphs = [lit ''carbon markets'']\<rparr>]\<rparr>,
      \<lparr>bk_id = lit ''opera'', bk_title = lit ''Opera'', bk_author = lit ''B'',
       bk_year = 2021, bk_language = lit ''en'', bk_tags = [], bk_description = [],
       bk_sections =
         [\<lparr>sec_heading = lit ''Voice'', sec_paragraphs = [lit ''carbon copy'']\<rparr>]\<rparr>]"

definition shelf_engine :: "nat engine" where
  "shelf_engine =
     \<lparr>eg_normalize = space_words, eg_score = overlap, eg_threshold = 0,
      eg_maxSupporting = 2, eg_truncate = (\<lambda>s. s), eg_index = build space_words shelf\<rparr>"

definition atlas_entry :: entry where
  "atlas_entry =
     \<lparr>en_book = \<lparr>book_id = lit ''atlas'', book_title = lit ''Climate Atlas''\<rparr>,
      en_bookIdx = 0, en_sectionIdx = 0, en_paragraphIdx = 0,
      en_heading = lit ''Carbon Markets'', en_text = lit ''carbon markets'',
      en_tokens = [lit ''carbon'', lit ''markets'']\<rparr>"

definition opera_entry :: entry where
  "opera_entry =
     \<lparr>en_book = \<lparr>book_id = lit ''opera'', book_title = lit ''Opera''\<rparr>,
      en_bookIdx = 1, en_sectionIdx = 0, en_paragraphIdx = 0,
      en_heading = lit ''Voice'', en_text = lit ''carbon copy'',
      en_tokens = [lit ''carbon'', lit ''copy'']\<rparr>"

definition atlas_answer :: qa_answer where
  "atlas_answer =
     \<lparr>qa_answer = lit ''carbon markets'',
      qa_book = \<lparr>book_id = lit ''atlas'', book_title = lit ''Climate Atlas''\<rparr>,
      qa_section = lit ''Carbon Markets'',
      qa_supporting = []\<rparr>"

text \<open>
  Translators over a backend that is down, that does not reply, or that yields an empty
  text, with detectors that always answer English, or French.
\<close>

definition detect_english :: "jsstring \<Rightarrow> jsstring option" where
  "detect_english txt = Some (lit ''en'')"

definition detect_french :: "jsstring \<Rightarrow> jsstring option" where
  "detect_french txt = Some (lit ''fr'')"

definition never_english :: "jsstring \<Rightarrow> bool" where
  "never_english txt = False"

definition backend_unavailable :: "jsstring \<Rightarrow> jsstring \<Rightarrow> backend_result" where
  "backend_unavailable txt target = Unavailable"

definition backend_silent :: "jsstring \<Rightarrow> jsstring \<Rightarrow> backend_result" where
  "backend_silent txt target = NoReply"

definition backend_empty :: "jsstring \<Rightarrow> jsstring \<Rightarrow> backend_result" where
  "backend_empty txt target = Translated []"

definition english_passthrough :: "jsstring \<Rightarrow> error + translation_result" where
  "english_passthrough = toEnglish detect_english never_english backend_unavailable"

definition empty_translation :: "jsstring \<Rightarrow> error + translation_result" where
  "empty_translation = toEnglish detect_french never_english backend_empty"

text \<open>
  Request bodies: an object of string fields, one whose message is an object with an own
  \<open>toString\<close>, and one with fields of other types.
\<close>

definition request :: "(string \<times> string) list \<Rightarrow> json" where
  "request kvs = JObj (map (\<lambda>(k, v). (lit k, JStr (lit v))) kvs)"

definition toString_request :: json where
  "toString_request = JObj [(lit ''message'', JObj [(lit ''toString'', JNum (lit ''1''))])]"

definition loose_request :: json where
  "loose_request =
     JObj [(lit ''message'', JStr (lit ''hi'')), (lit ''scope'', JStr (lit ''shelf'')),
           (lit ''bookId'', JNull), (lit ''targetLanguage'', JNum (lit ''7''))]"

section \<open>Evaluation of the worked inputs\<close>

lemmas request_eval =
  req_message_def req_scope_def req_bookId_def req_targetLanguage_def request_def lit_def
  trim_def is_js_whitespace_def

lemma shelf_index: "build space_words shelf = [atlas_entry, opera_entry]"
  by (simp add: build_def index_book_def index_section_def shelf_def
        atlas_entry_def opera_entry_def space_words_def lit_def enumerate_eq_zip upt_rec)

lemmas shelf_eval =
  search_def shelf_index atlas_entry_def opera_entry_def in_scope_def shares_token_def
  overlap_def ranks_before_def place_le_def attach_supporting_def sibling_def lit_def

lemmas answer_eval =
  findAnswer_def compose_def shelf_engine_def space_words_def atlas_answer_def shelf_eval

lemma english_passthrough_eq:
  "english_passthrough m = Inr \<lparr>tr_text = m, tr_detected = lit ''en''\<rparr>"
  by (simp add: english_passthrough_def toEnglish_def detect_english_def)

lemma empty_translation_eq:
  "empty_translation m = Inr \<lparr>tr_text = [], tr_detected = lit ''fr''\<rparr>"
  by (simp add: empty_translation_def toEnglish_def detect_french_def never_english_def
        backend_empty_def lit_def)

lemma fromEnglish_en: "fromEnglish backend txt (lit ''en'') = Inr txt"
  by (simp add: fromEnglish_def)

section \<open>Properties of the chat handler\<close>

lemma dropWhile_idem: "dropWhile P (dropWhile P xs) = dropWhile P xs"
  by (induction xs) auto

lemma dropWhile_rev_dropWhile:
  "dropWhile P (rev (dropWhile P (rev (dropWhile P xs)))) = rev (dropWhile P (rev (dropWhile P xs)))"
proof (cases "dropWhile P xs")
  case Nil
  show ?thesis unfolding Nil by simp
next
  case (Cons y ys)
  then have ny: "\<not> P y" using hd_dropWhile[of P xs] by auto
  have "rev (dropWhile P (rev (y # ys))) =
          y # (if \<forall>x\<in>set ys. P x then [] else rev (dropWhile P (rev ys)))"
    using ny by (simp add: dropWhile_append)
  then show ?thesis using ny unfolding Cons by simp
qed

lemma trim_idem: "trim (trim s) = trim s"
  unfolding trim_def
  by (simp add: dropWhile_rev_dropWhile dropWhile_idem)

lemma req_message_trimmed: "req_message body = Some m \<Longrightarrow> trim m = m"
  by (auto simp: req_message_def trim_idem)

text \<open>
  When \<open>String\<close> throws on the message field, the handler ends with the TypeError before
  any call.
\<close>

lemma POST_throws:
  "req_message body = None \<Longrightarrow> POST te fa tf body = ([], Inl TypeError)"
  by (simp add: POST_def)

lemma POST_throws_on_toString:
  "POST te fa tf toString_request = ([], Inl TypeError)"
  by (simp add: POST_def req_message_def toString_request_def lit_def)

lemma POST_empty:
  "req_message body = Some [] \<Longrightarrow>
   POST te fa tf body =
     ([], Inr \<lparr>status = 400, payload = ErrorBody (lit ''Message must not be empty.'')\<rparr>)"
  by (simp add: POST_def)

lemma POST_calls_cases:
  "c \<in> set (fst (POST te fa tf body)) \<Longrightarrow>
   \<exists>m. req_message body = Some m \<and> m \<noteq> [] \<and>
   (c = TranslateToEnglish m \<or>
    (\<exists>tr. te m = Inr tr \<and>
        (c = FindAnswer (if tr_text tr \<noteq> [] then tr_text tr else m)
               \<lparr>opt_scope = req_scope body, opt_bookId = req_bookId body\<rparr> \<or>
         (\<exists>ans. c = TranslateFromEnglish (compose_baseAnswer ans) (req_targetLanguage body)))))"
  by (auto simp: POST_def Let_def split: if_splits sum.splits option.splits)

text \<open>
  C2. A request whose message trims to the empty string gets the 400 response with the
  error body, and no collaborator is called. In any run, \<open>translateToEnglish\<close>
  receives the trimmed, non-empty message, and \<open>findAnswer\<close> a non-empty query.
\<close>

theorem POST_rejects_empty_message:
  "(req_message body = Some [] \<longrightarrow>
      POST te fa tf body =
        ([], Inr \<lparr>status = 400, payload = ErrorBody (lit ''Message must not be empty.'')\<rparr>)) \<and>
   (\<forall>m. TranslateToEnglish m \<in> set (fst (POST te fa tf body)) \<longrightarrow>
      req_message body = Some m \<and> m \<noteq> [] \<and> trim m = m) \<and>
   (\<forall>q opts. FindAnswer q opts \<in> set (fst (POST te fa tf body)) \<longrightarrow> q \<noteq> [])"
proof (intro conjI allI impI)
  assume "req_message body = Some []"
  then show "POST te fa tf body =
        ([], Inr \<lparr>status = 400, payload = ErrorBody (lit ''Message must not be empty.'')\<rparr>)"
    by (rule POST_empty)
next
  fix m assume "TranslateToEnglish m \<in> set (fst (POST te fa tf body))"
  from POST_calls_cases[OF this] have m: "req_message body = Some m" and ne: "m \<noteq> []"
    by auto
  show "req_message body = Some m" by (rule m)
  show "m \<noteq> []" by (rule ne)
  show "trim m = m" using m by (rule req_message_trimmed)
next
  fix q opts assume "FindAnswer q opts \<in> set (fst (POST te fa tf body))"
  from POST_calls_cases[OF this] show "q \<noteq> []" by (auto split: if_splits)
qed

lemma POST_translated:
  assumes "req_message body = Some m" and "m \<noteq> []" and "te m = Inr tr"
  shows "POST te fa tf body =
    (case fa (if tr_text tr \<noteq> [] then tr_text tr else m)
              \<lparr>opt_scope = req_scope body, opt_bookId = req_bookId body\<rparr> of
       Inl e \<Rightarrow>
         ([TranslateToEnglish m,
           FindAnswer (if tr_text tr \<noteq> [] then tr_text tr else m)
             \<lparr>opt_scope = req_scope body, opt_bookId = req_bookId body\<rparr>], Inl (Raised e))
     | Inr ans \<Rightarrow>
         ([TranslateToEnglish m,
           FindAnswer (if tr_text tr \<noteq> [] then tr_text tr else m)
             \<lparr>opt_scope = req_scope body, opt_bookId = req_bookId body\<rparr>,
           TranslateFromEnglish (compose_baseAnswer ans) (req_targetLanguage body)],
          case tf (compose_baseAnswer ans) (req_targetLanguage body) of
            Inl e \<Rightarrow> Inl (Raised e)
          | Inr t \<Rightarrow>
              Inr \<lparr>status = 200,
                   payload = ChatBody
                     \<lparr>answer = t, baseAnswer = compose_baseAnswer ans,
                      targetLanguage = req_targetLanguage body,
                      detectedLanguage = tr_detected tr,
                      found = (ans \<noteq> None), source = source_of ans\<rparr>\<rparr>))"
  using assms by (simp add: POST_def Let_def split: sum.splits)

text \<open>
  The handler has no recovery of its own: an exception of a collaborator ends the call
  with that exception.
\<close>

lemma POST_to_english_fails:
  "req_message body = Some m \<Longrightarrow> m \<noteq> [] \<Longrightarrow> te m = Inl e \<Longrightarrow>
   POST te fa tf body = ([TranslateToEnglish m], Inl (Raised e))"
  by (simp add: POST_def Let_def)

lemma POST_from_english_fails:
  assumes "req_message body = Some m" and "m \<noteq> []" and "te m = Inr tr"
    and "fa (if tr_text tr \<noteq> [] then tr_text tr else m)
            \<lparr>opt_scope = req_scope body, opt_bookId = req_bookId body\<rparr> = Inr ans"
    and "tf (compose_baseAnswer ans) (req_targetLanguage body) = Inl e"
  shows "snd (POST te fa tf body) = Inl (Raised e)"
  unfolding POST_translated [where te = te and body = body, OF assms(1,2,3)]
  by (simp add: assms(4,5))

theorem POST_rejects_empty_message_witness:
  "req_message (request [(''message'', ''  '')]) = Some [] \<and>
   POST english_passthrough (findAnswer shelf_engine) (fromEnglish backend_unavailable)
       (request [(''message'', ''  '')]) =
     ([], Inr \<lparr>status = 400, payload = ErrorBody (lit ''Message must not be empty.'')\<rparr>) \<and>
   TranslateToEnglish (lit ''hi'') \<in>
     set (fst (POST english_passthrough (findAnswer shelf_engine)
                 (fromEnglish backend_unavailable) (request [(''message'', '' hi '')]))) \<and>
   lit ''hi'' \<noteq> [] \<and> trim (lit ''hi'') = lit ''hi''"
proof -
  let ?b = "request [(''message'', '' hi '')]"
  have e: "req_message (request [(''message'', ''  '')]) = Some []"
    by (simp add: request_eval)
  have m: "req_message ?b = Some (lit ''hi'')" by (simp add: request_eval)
  have ne: "lit ''hi'' \<noteq> []" by (simp add: lit_def)
  have c: "TranslateToEnglish (lit ''hi'') \<in>
     set (fst (POST english_passthrough (findAnswer shelf_engine)
                 (fromEnglish backend_unavailable) ?b))"
    unfolding POST_translated [where te = english_passthrough and body = ?b,
        OF m ne english_passthrough_eq]
    by (simp split: sum.splits)
  show ?thesis
    using e c
      POST_rejects_empty_message [of "request [(''message'', ''  '')]" english_passthrough
        "findAnswer shelf_engine" "fromEnglish backend_unavailable"]
      POST_rejects_empty_message [of ?b english_passthrough
        "findAnswer shelf_engine" "fromEnglish backend_unavailable"]
    by blast
qed

text \<open>
  C3. When \<open>findAnswer\<close> yields no answer, the response is an ordinary one (status 200)
  with \<open>found = false\<close>, the fixed fallback message as \<open>baseAnswer\<close> and
  \<open>source = null\<close>.
\<close>

theorem POST_no_match_fallback:
  assumes "req_message body = Some m" and "m \<noteq> []"
    and "te m = Inr tr"
    and "fa (if tr_text tr \<noteq> [] then tr_text tr else m)
            \<lparr>opt_scope = req_scope body, opt_bookId = req_bookId body\<rparr> = Inr None"
    and "tf fallbackAnswer (req_targetLanguage body) = Inr t"
  shows "snd (POST te fa tf body) =
     Inr \<lparr>status = 200,
          payload = ChatBody
            \<lparr>answer = t, baseAnswer = fallbackAnswer,
             targetLanguage = req_targetLanguage body,
             detectedLanguage = tr_detected tr, found = False, source = None\<rparr>\<rparr>"
  using assms(4,5) unfolding POST_translated [where te = te and body = body, OF assms(1,2,3)]
  by (simp add: compose_baseAnswer_def source_of_def)

theorem POST_no_match_fallback_witness:
  "req_message (request [(''message'', ''opera singing'')]) = Some (lit ''opera singing'') \<and>
   lit ''opera singing'' \<noteq> [] \<and>
   findAnswer shelf_engine (lit ''opera singing'') \<lparr>opt_scope = Library, opt_bookId = None\<rparr> =
     Inr None \<and>
   snd (POST english_passthrough (findAnswer shelf_engine) (fromEnglish backend_unavailable)
          (request [(''message'', ''opera singing'')])) =
     Inr \<lparr>status = 200,
          payload = ChatBody
            \<lparr>answer = fallbackAnswer, baseAnswer = fallbackAnswer,
             targetLanguage = lit ''en'', detectedLanguage = lit ''en'',
             found = False, source = None\<rparr>\<rparr>"
proof -
  let ?b = "request [(''message'', ''opera singing'')]"
  let ?m = "lit ''opera singing''"
  let ?tr = "\<lparr>tr_text = ?m, tr_detected = lit ''en''\<rparr>"
  have m: "req_message ?b = Some ?m" by (simp add: request_eval)
  have h1: "?m \<noteq> []" by (simp add: lit_def)
  have sc: "req_scope ?b = Library" by (simp add: request_eval)
  have bi: "req_bookId ?b = None" by (simp add: request_eval)
  have tl: "req_targetLanguage ?b = lit ''en''" by (simp add: request_eval)
  have none: "findAnswer shelf_engine ?m
                \<lparr>opt_scope = Library, opt_bookId = None\<rparr> = Inr None"
    by (simp add: answer_eval)
  have h3: "findAnswer shelf_engine
      (if tr_text ?tr \<noteq> [] then tr_text ?tr else ?m)
      \<lparr>opt_scope = req_scope ?b, opt_bookId = req_bookId ?b\<rparr> = Inr None"
    using none h1 by (simp add: sc bi)
  have h4: "fromEnglish backend_unavailable fallbackAnswer (req_targetLanguage ?b) =
              Inr fallbackAnswer"
    by (simp add: tl fromEnglish_en)
  show ?thesis
    using m h1 none
      POST_no_match_fallback [where te = english_passthrough and fa = "findAnswer shelf_engine"
        and tf = "fromEnglish backend_unavailable" and body = ?b and m = ?m,
        OF m h1 english_passthrough_eq h3 h4]
    by (simp add: tl)
qed

text \<open>
  C9. When \<open>translateToEnglish\<close> yields an empty text for a non-empty message, the
  handler queries \<open>findAnswer\<close> with the message itself, never with the empty string.
\<close>

theorem POST_empty_translation_uses_message:
  assumes "req_message body = Some m" and "m \<noteq> []"
    and "te m = Inr tr"
    and "tr_text tr = []"
  shows "take 2 (fst (POST te fa tf body)) =
           [TranslateToEnglish m,
            FindAnswer m \<lparr>opt_scope = req_scope body, opt_bookId = req_bookId body\<rparr>] \<and>
         (\<forall>q opts. FindAnswer q opts \<in> set (fst (POST te fa tf body)) \<longrightarrow>
            q = m \<and> q \<noteq> [])"
  using assms(2,4) unfolding POST_translated [where te = te and body = body, OF assms(1,2,3)]
  by (auto split: sum.splits)

theorem POST_empty_translation_uses_message_witness:
  "req_message (request [(''message'', ''hola'')]) = Some (lit ''hola'') \<and>
   lit ''hola'' \<noteq> [] \<and>
   empty_translation (lit ''hola'') = Inr \<lparr>tr_text = [], tr_detected = lit ''fr''\<rparr> \<and>
   take 2 (fst (POST empty_translation (findAnswer shelf_engine)
                  (fromEnglish backend_unavailable) (request [(''message'', ''hola'')]))) =
     [TranslateToEnglish (lit ''hola''),
      FindAnswer (lit ''hola'') \<lparr>opt_scope = Library, opt_bookId = None\<rparr>]"
proof -
  let ?b = "request [(''message'', ''hola'')]"
  have m: "req_message ?b = Some (lit ''hola'')" by (simp add: request_eval)
  have h1: "lit ''hola'' \<noteq> []" by (simp add: lit_def)
  have h3: "tr_text \<lparr>tr_text = [], tr_detected = lit ''fr''\<rparr> = []" by simp
  have sc: "req_scope ?b = Library" by (simp add: request_eval)
  have bi: "req_bookId ?b = None" by (simp add: request_eval)
  show ?thesis
    using m h1 POST_empty_translation_uses_message [where te = empty_translation
        and fa = "findAnswer shelf_engine" and tf = "fromEnglish backend_unavailable"
        and body = ?b and m = "lit ''hola''", OF m h1 empty_translation_eq h3]
      empty_translation_eq [of "lit ''hola''"]
    by (simp add: sc bi)
qed

lemma POST_response_cases:
  assumes "snd (POST te fa tf body) = Inr \<lparr>status = st, payload = ChatBody r\<rparr>"
  shows "\<exists>m tr ans t.
     req_message body = Some m \<and> m \<noteq> [] \<and> te m = Inr tr \<and>
     fa (if tr_text tr \<noteq> [] then tr_text tr else m)
        \<lparr>opt_scope = req_scope body, opt_bookId = req_bookId body\<rparr> = Inr ans \<and>
     tf (compose_baseAnswer ans) (req_targetLanguage body) = Inr t \<and>
     st = 200 \<and>
     r = \<lparr>answer = t, baseAnswer = compose_baseAnswer ans,
          targetLanguage = req_targetLanguage body, detectedLanguage = tr_detected tr,
          found = (ans \<noteq> None), source = source_of ans\<rparr>"
  using assms by (auto simp: POST_def Let_def split: if_splits sum.splits option.splits)

text \<open>
  C8. A \<open>scope\<close> field that is absent or not \<open>"book"\<close> gives scope \<open>library\<close>, which is
  what \<open>findAnswer\<close> is called with; a \<open>targetLanguage\<close> field that is absent or not a
  string gives \<open>"en"\<close>, which is what \<open>translateFromEnglish\<close> is called with and what
  the response reports.
\<close>

theorem POST_applies_defaults:
  "(get_prop body (lit ''scope'') \<noteq> Some (JStr (lit ''book'')) \<longrightarrow>
      req_scope body = Library \<and>
      (\<forall>q opts. FindAnswer q opts \<in> set (fst (POST te fa tf body)) \<longrightarrow>
         opt_scope opts = Library)) \<and>
   ((\<forall>s. get_prop body (lit ''targetLanguage'') \<noteq> Some (JStr s)) \<longrightarrow>
      req_targetLanguage body = lit ''en'' \<and>
      (\<forall>b l. TranslateFromEnglish b l \<in> set (fst (POST te fa tf body)) \<longrightarrow>
         l = lit ''en'') \<and>
      (\<forall>st r. snd (POST te fa tf body) = Inr \<lparr>status = st, payload = ChatBody r\<rparr> \<longrightarrow>
         targetLanguage r = lit ''en''))"
proof (intro conjI impI allI)
  assume s: "get_prop body (lit ''scope'') \<noteq> Some (JStr (lit ''book''))"
  then show "req_scope body = Library" by (simp add: req_scope_def)
  fix q opts assume "FindAnswer q opts \<in> set (fst (POST te fa tf body))"
  from POST_calls_cases [OF this] have "opt_scope opts = req_scope body" by auto
  then show "opt_scope opts = Library" using s by (simp add: req_scope_def)
next
  assume t: "\<forall>s. get_prop body (lit ''targetLanguage'') \<noteq> Some (JStr s)"
  then show en: "req_targetLanguage body = lit ''en''"
    by (auto simp: req_targetLanguage_def split: option.splits json.splits)
  {
    fix b l assume "TranslateFromEnglish b l \<in> set (fst (POST te fa tf body))"
    from POST_calls_cases [OF this] have "l = req_targetLanguage body" by auto
    then show "l = lit ''en''" using en by simp
  }
  {
    fix st r assume "snd (POST te fa tf body) = Inr \<lparr>status = st, payload = ChatBody r\<rparr>"
    from POST_response_cases [OF this] have "targetLanguage r = req_targetLanguage body"
      by auto
    then show "targetLanguage r = lit ''en''" using en by simp
  }
qed

theorem POST_applies_defaults_witness:
  "get_prop loose_request (lit ''scope'') \<noteq> Some (JStr (lit ''book'')) \<and>
   (\<forall>s. get_prop loose_request (lit ''targetLanguage'') \<noteq> Some (JStr s)) \<and>
   FindAnswer (lit ''hi'') \<lparr>opt_scope = Library, opt_bookId = None\<rparr> \<in>
     set (fst (POST english_passthrough (findAnswer shelf_engine)
                 (fromEnglish backend_unavailable) loose_request)) \<and>
   snd (POST english_passthrough (findAnswer shelf_engine) (fromEnglish backend_unavailable)
          loose_request) =
     Inr \<lparr>status = 200,
          payload = ChatBody
            \<lparr>answer = fallbackAnswer, baseAnswer = fallbackAnswer,
             targetLanguage = lit ''en'', detectedLanguage = lit ''en'',
             found = False, source = None\<rparr>\<rparr>"
proof -
  have sc: "get_prop loose_request (lit ''scope'') \<noteq> Some (JStr (lit ''book''))"
    by (simp add: loose_request_def lit_def)
  have tl: "\<forall>s. get_prop loose_request (lit ''targetLanguage'') \<noteq> Some (JStr s)"
    by (simp add: loose_request_def lit_def)
  have m: "req_message loose_request = Some (lit ''hi'')"
    by (simp add: loose_request_def request_eval)
  have bi: "req_bookId loose_request = None"
    by (simp add: loose_request_def request_eval)
  note d = POST_applies_defaults [of loose_request english_passthrough
      "findAnswer shelf_engine" "fromEnglish backend_unavailable"]
  from d sc have s2: "req_scope loose_request = Library" by blast
  from d tl have t2: "req_targetLanguage loose_request = lit ''en''" by blast
  have none: "findAnswer shelf_engine (lit ''hi'') \<lparr>opt_scope = Library, opt_bookId = None\<rparr> =
                Inr None"
    by (simp add: answer_eval)
  have hi: "lit ''hi'' \<noteq> []" by (simp add: lit_def)
  have run: "POST english_passthrough (findAnswer shelf_engine)
               (fromEnglish backend_unavailable) loose_request =
    ([TranslateToEnglish (lit ''hi''),
      FindAnswer (lit ''hi'') \<lparr>opt_scope = Library, opt_bookId = None\<rparr>,
      TranslateFromEnglish fallbackAnswer (lit ''en'')],
     Inr \<lparr>status = 200,
          payload = ChatBody
            \<lparr>answer = fallbackAnswer, baseAnswer = fallbackAnswer,
             targetLanguage = lit ''en'', detectedLanguage = lit ''en'',
             found = False, source = None\<rparr>\<rparr>)"
    unfolding POST_translated [where te = english_passthrough and body = loose_request,
        OF m hi english_passthrough_eq]
    by (simp add: s2 t2 bi hi none fromEnglish_en compose_baseAnswer_def source_of_def)
  show ?thesis using sc tl run by simp
qed

lemma source_line_nonempty: "source_line a \<noteq> []"
  by (simp add: source_line_def lit_def)

lemma baseAnswer_parts:
  "prefix (qa_answer a) (compose_baseAnswer (Some a)) \<and>
   sublist (source_line a) (compose_baseAnswer (Some a))"
proof -
  let ?nl = "[0x000A, 0x000A] :: jsstring"
  have s1: "sublist (source_line a) (source_line a @ ?nl @ related_line a)"
    using sublist_appendI [of "source_line a" "[]" "?nl @ related_line a"] by simp
  have s2: "sublist (source_line a) (qa_answer a @ ?nl @ source_line a)"
    using sublist_appendI [of "source_line a" "qa_answer a @ ?nl" "[]"] by simp
  have s3: "sublist (source_line a) (qa_answer a @ ?nl @ source_line a @ ?nl @ related_line a)"
    using sublist_appendI [of "source_line a" "qa_answer a @ ?nl" "?nl @ related_line a"]
    by simp
  show ?thesis
    using s1 s2 s3 source_line_nonempty [of a]
    by (cases "qa_answer a = []"; cases "related_line a = []")
       (simp_all add: compose_baseAnswer_def)
qed

text \<open>
  C10. In every chat response of the handler, \<open>found\<close> holds exactly when \<open>source\<close> is
  not null; and when it holds, \<open>source\<close> names the book and section of the answer that
  \<open>findAnswer\<close> returned, \<open>baseAnswer\<close> starts with the answer text and contains the
  line \<open>Source: <title> - <section>\<close> (with an em dash) of that answer.
\<close>

theorem POST_response_consistent:
  assumes "snd (POST te fa tf body) = Inr \<lparr>status = st, payload = ChatBody r\<rparr>"
  shows "(found r \<longleftrightarrow> source r \<noteq> None) \<and>
         (found r \<longrightarrow>
            (\<exists>q a. fa q \<lparr>opt_scope = req_scope body, opt_bookId = req_bookId body\<rparr> =
                      Inr (Some a) \<and>
                   source r =
                     Some \<lparr>src_id = book_id (qa_book a), src_title = book_title (qa_book a),
                           src_section = qa_section a\<rparr> \<and>
                   prefix (qa_answer a) (baseAnswer r) \<and>
                   sublist (lit ''Source: '' @ book_title (qa_book a) @
                              [0x0020, 0x2014, 0x0020] @ qa_section a)
                     (baseAnswer r)))"
proof -
  from POST_response_cases [OF assms] obtain m tr ans t where
    run: "req_message body = Some m \<and> m \<noteq> [] \<and> te m = Inr tr \<and>
     fa (if tr_text tr \<noteq> [] then tr_text tr else m)
        \<lparr>opt_scope = req_scope body, opt_bookId = req_bookId body\<rparr> = Inr ans \<and>
     tf (compose_baseAnswer ans) (req_targetLanguage body) = Inr t \<and>
     st = 200 \<and>
     r = \<lparr>answer = t, baseAnswer = compose_baseAnswer ans,
          targetLanguage = req_targetLanguage body, detectedLanguage = tr_detected tr,
          found = (ans \<noteq> None), source = source_of ans\<rparr>"
    by (elim exE)
  from run have
    f: "fa (if tr_text tr \<noteq> [] then tr_text tr else m)
          \<lparr>opt_scope = req_scope body, opt_bookId = req_bookId body\<rparr> = Inr ans"
    and r: "r = \<lparr>answer = t, baseAnswer = compose_baseAnswer ans,
          targetLanguage = req_targetLanguage body, detectedLanguage = tr_detected tr,
          found = (ans \<noteq> None), source = source_of ans\<rparr>"
    by simp_all
  show ?thesis
  proof (cases ans)
    case None
    then show ?thesis using r by (simp add: source_of_def)
  next
    case (Some a)
    have "fa (if tr_text tr \<noteq> [] then tr_text tr else m)
            \<lparr>opt_scope = req_scope body, opt_bookId = req_bookId body\<rparr> = Inr (Some a)"
      using f Some by simp
    moreover have "source r =
        Some \<lparr>src_id = book_id (qa_book a), src_title = book_title (qa_book a),
              src_section = qa_section a\<rparr>"
      using r Some by (simp add: source_of_def)
    moreover have "prefix (qa_answer a) (baseAnswer r)"
      using r Some baseAnswer_parts [of a] by simp
    moreover have "sublist (lit ''Source: '' @ book_title (qa_book a) @
                              [0x0020, 0x2014, 0x0020] @ qa_section a) (baseAnswer r)"
      using r Some baseAnswer_parts [of a] by (simp add: source_line_def)
    ultimately show ?thesis using r Some by (auto simp: source_of_def)
  qed
qed

theorem POST_response_consistent_witness:
  "snd (POST english_passthrough (findAnswer shelf_engine) (fromEnglish backend_unavailable)
          (request [(''message'', ''carbon markets'')])) =
     Inr \<lparr>status = 200,
          payload = ChatBody
            \<lparr>answer = compose_baseAnswer (Some atlas_answer),
             baseAnswer = compose_baseAnswer (Some atlas_answer),
             targetLanguage = lit ''en'', detectedLanguage = lit ''en'',
             found = True, source = source_of (Some atlas_answer)\<rparr>\<rparr> \<and>
   source_of (Some atlas_answer) \<noteq> None \<and>
   (\<exists>q a. findAnswer shelf_engine q \<lparr>opt_scope = Library, opt_bookId = None\<rparr> =
            Inr (Some a) \<and>
      prefix (qa_answer a) (compose_baseAnswer (Some atlas_answer)) \<and>
      sublist (lit ''Source: '' @ book_title (qa_book a) @ [0x0020, 0x2014, 0x0020] @
                 qa_section a)
        (compose_baseAnswer (Some atlas_answer)))"
proof -
  let ?b = "request [(''message'', ''carbon markets'')]"
  let ?r = "\<lparr>answer = compose_baseAnswer (Some atlas_answer),
             baseAnswer = compose_baseAnswer (Some atlas_answer),
             targetLanguage = lit ''en'', detectedLanguage = lit ''en'',
             found = True, source = source_of (Some atlas_answer)\<rparr>"
  have sc: "req_scope ?b = Library" by (simp add: request_eval)
  have bi: "req_bookId ?b = None" by (simp add: request_eval)
  have m: "req_message ?b = Some (lit ''carbon markets'')" by (simp add: request_eval)
  have cm: "lit ''carbon markets'' \<noteq> []" by (simp add: lit_def)
  have tl: "req_targetLanguage ?b = lit ''en''" by (simp add: request_eval)
  have ans: "findAnswer shelf_engine (lit ''carbon markets'')
               \<lparr>opt_scope = Library, opt_bookId = None\<rparr> = Inr (Some atlas_answer)"
    by (simp add: answer_eval)
  have run: "snd (POST english_passthrough (findAnswer shelf_engine)
                    (fromEnglish backend_unavailable) ?b) =
     Inr \<lparr>status = 200, payload = ChatBody ?r\<rparr>"
    unfolding POST_translated [where te = english_passthrough and body = ?b,
        OF m cm english_passthrough_eq]
    by (simp add: sc bi tl cm ans fromEnglish_en)
  from POST_response_consistent [OF run]
  have "source_of (Some atlas_answer) \<noteq> None \<and>
     (\<exists>q a. findAnswer shelf_engine q \<lparr>opt_scope = Library, opt_bookId = None\<rparr> =
              Inr (Some a) \<and>
        prefix (qa_answer a) (compose_baseAnswer (Some atlas_answer)) \<and>
        sublist (lit ''Source: '' @ book_title (qa_book a) @ [0x0020, 0x2014, 0x0020] @
                   qa_section a)
          (compose_baseAnswer (Some atlas_answer)))"
    unfolding sc bi by auto
  with run show ?thesis by simp
qed

section \<open>Properties of the translator and the retrieval engine\<close>

text \<open>
  C7. Translating from English to the target \<open>"en"\<close> returns the text unchanged, whatever
  the backend would do.
\<close>

theorem fromEnglish_en_identity:
  "fromEnglish backend x (lit ''en'') = Inr x"
  by (simp add: fromEnglish_def)

theorem fromEnglish_en_identity_witness:
  "fromEnglish backend_unavailable (lit ''hello'') (lit ''en'') = Inr (lit ''hello'')"
  using fromEnglish_en_identity [of backend_unavailable "lit ''hello''"] by simp

lemma fromEnglish_failure:
  "target \<noteq> lit ''en'' \<Longrightarrow> \<forall>t. backend txt target \<noteq> Translated t \<Longrightarrow>
   fromEnglish backend txt target = Inl TranslationUnavailable"
  by (cases "backend txt target") (simp_all add: fromEnglish_def)

text \<open>
  C6 as the code has it. The handler has no fallback of its own. When
  \<open>translateToEnglish\<close> or \<open>translateFromEnglish\<close> fails, the call ends with that
  failure and there is no response; so it does over the translator of the spec when the
  backend fails or does not reply for a target other than \<open>"en"\<close>. When
  \<open>translateFromEnglish\<close> yields a text, the call succeeds with status 200, the response
  reports the requested target language, and \<open>answer\<close> is the text yielded, so it equals
  \<open>baseAnswer\<close> when that text is the untranslated one.
\<close>

theorem POST_translation_outcome:
  assumes "req_message body = Some m" and "m \<noteq> []"
  shows "(\<forall>e. te m = Inl e \<longrightarrow>
            POST te fa tf body = ([TranslateToEnglish m], Inl (Raised e))) \<and>
         (\<forall>tr ans.
            te m = Inr tr \<longrightarrow>
            fa (if tr_text tr \<noteq> [] then tr_text tr else m)
               \<lparr>opt_scope = req_scope body, opt_bookId = req_bookId body\<rparr> = Inr ans \<longrightarrow>
            snd (POST te fa tf body) =
              (case tf (compose_baseAnswer ans) (req_targetLanguage body) of
                 Inl e \<Rightarrow> Inl (Raised e)
               | Inr t \<Rightarrow>
                   Inr \<lparr>status = 200,
                        payload = ChatBody
                          \<lparr>answer = t, baseAnswer = compose_baseAnswer ans,
                           targetLanguage = req_targetLanguage body,
                           detectedLanguage = tr_detected tr,
                           found = (ans \<noteq> None), source = source_of ans\<rparr>\<rparr>)) \<and>
         (\<forall>tr ans backend.
            te m = Inr tr \<longrightarrow>
            fa (if tr_text tr \<noteq> [] then tr_text tr else m)
               \<lparr>opt_scope = req_scope body, opt_bookId = req_bookId body\<rparr> = Inr ans \<longrightarrow>
            req_targetLanguage body \<noteq> lit ''en'' \<longrightarrow>
            (\<forall>t. backend (compose_baseAnswer ans) (req_targetLanguage body) \<noteq> Translated t) \<longrightarrow>
            snd (POST te fa (fromEnglish backend) body) = Inl (Raised TranslationUnavailable))"
proof (intro conjI allI impI)
  fix e assume "te m = Inl e"
  then show "POST te fa tf body = ([TranslateToEnglish m], Inl (Raised e))"
    using assms by (simp add: POST_to_english_fails)
next
  fix tr ans
  assume t: "te m = Inr tr"
    and f: "fa (if tr_text tr \<noteq> [] then tr_text tr else m)
               \<lparr>opt_scope = req_scope body, opt_bookId = req_bookId body\<rparr> = Inr ans"
  show "snd (POST te fa tf body) =
              (case tf (compose_baseAnswer ans) (req_targetLanguage body) of
                 Inl e \<Rightarrow> Inl (Raised e)
               | Inr t \<Rightarrow>
                   Inr \<lparr>status = 200,
                        payload = ChatBody
                          \<lparr>answer = t, baseAnswer = compose_baseAnswer ans,
                           targetLanguage = req_targetLanguage body,
                           detectedLanguage = tr_detected tr,
                           found = (ans \<noteq> None), source = source_of ans\<rparr>\<rparr>)"
    unfolding POST_translated [where te = te and body = body, OF assms t] f by simp
next
  fix tr ans backend
  assume t: "te m = Inr tr"
    and f: "fa (if tr_text tr \<noteq> [] then tr_text tr else m)
               \<lparr>opt_scope = req_scope body, opt_bookId = req_bookId body\<rparr> = Inr ans"
    and l: "req_targetLanguage body \<noteq> lit ''en''"
    and b: "\<forall>t. backend (compose_baseAnswer ans) (req_targetLanguage body) \<noteq> Translated t"
  have "fromEnglish backend (compose_baseAnswer ans) (req_targetLanguage body) =
          Inl TranslationUnavailable"
    using l b by (rule fromEnglish_failure)
  then show "snd (POST te fa (fromEnglish backend) body) = Inl (Raised TranslationUnavailable)"
    by (rule POST_from_english_fails [where te = te and fa = fa and body = body,
          OF assms t f])
qed

theorem POST_translation_outcome_witness:
  "req_message (request [(''message'', ''carbon markets''), (''targetLanguage'', ''fr'')]) =
     Some (lit ''carbon markets'') \<and>
   lit ''carbon markets'' \<noteq> [] \<and>
   req_targetLanguage (request [(''message'', ''carbon markets''), (''targetLanguage'', ''fr'')])
     \<noteq> lit ''en'' \<and>
   (\<forall>t. backend_silent (compose_baseAnswer (Some atlas_answer)) (lit ''fr'') \<noteq> Translated t) \<and>
   snd (POST english_passthrough (findAnswer shelf_engine) (fromEnglish backend_silent)
          (request [(''message'', ''carbon markets''), (''targetLanguage'', ''fr'')])) =
     Inl (Raised TranslationUnavailable)"
proof -
  let ?b = "request [(''message'', ''carbon markets''), (''targetLanguage'', ''fr'')]"
  let ?m = "lit ''carbon markets''"
  let ?tr = "\<lparr>tr_text = ?m, tr_detected = lit ''en''\<rparr>"
  have m: "req_message ?b = Some ?m" by (simp add: request_eval)
  have cm: "?m \<noteq> []" by (simp add: lit_def)
  have sc: "req_scope ?b = Library" by (simp add: request_eval)
  have bi: "req_bookId ?b = None" by (simp add: request_eval)
  have tl: "req_targetLanguage ?b = lit ''fr''" by (simp add: request_eval)
  have fr: "lit ''fr'' \<noteq> lit ''en''" by (simp add: lit_def)
  have ans: "findAnswer shelf_engine (if tr_text ?tr \<noteq> [] then tr_text ?tr else ?m)
               \<lparr>opt_scope = req_scope ?b, opt_bookId = req_bookId ?b\<rparr> =
             Inr (Some atlas_answer)"
    using cm by (simp add: sc bi answer_eval)
  have nr: "\<forall>t. backend_silent (compose_baseAnswer (Some atlas_answer))
                 (req_targetLanguage ?b) \<noteq> Translated t"
    by (simp add: backend_silent_def)
  have l: "req_targetLanguage ?b \<noteq> lit ''en''" using fr by (simp add: tl)
  from POST_translation_outcome [where body = ?b and m = ?m and te = english_passthrough
      and fa = "findAnswer shelf_engine" and tf = "fromEnglish backend_silent", OF m cm]
  have "snd (POST english_passthrough (findAnswer shelf_engine) (fromEnglish backend_silent) ?b) =
          Inl (Raised TranslationUnavailable)"
    using english_passthrough_eq [of ?m] ans l nr by blast
  then show ?thesis using m cm l nr by (simp add: tl)
qed

text \<open>
  A failure of the translation step is fatal to the query: with the backend unavailable
  and the target language \<open>"fr"\<close>, the call ends with TranslationUnavailable after the
  three collaborator calls, and there is no response.
\<close>

theorem POST_translation_failure_is_fatal:
  "POST english_passthrough (findAnswer shelf_engine) (fromEnglish backend_unavailable)
      (request [(''message'', ''opera singing''), (''targetLanguage'', ''fr'')]) =
     ([TranslateToEnglish (lit ''opera singing''),
       FindAnswer (lit ''opera singing'') \<lparr>opt_scope = Library, opt_bookId = None\<rparr>,
       TranslateFromEnglish fallbackAnswer (lit ''fr'')],
      Inl (Raised TranslationUnavailable))"
proof -
  let ?b = "request [(''message'', ''opera singing''), (''targetLanguage'', ''fr'')]"
  let ?m = "lit ''opera singing''"
  have m: "req_message ?b = Some ?m" by (simp add: request_eval)
  have ne: "?m \<noteq> []" by (simp add: lit_def)
  have sc: "req_scope ?b = Library" by (simp add: request_eval)
  have bi: "req_bookId ?b = None" by (simp add: request_eval)
  have tl: "req_targetLanguage ?b = lit ''fr''" by (simp add: request_eval)
  have fr: "lit ''fr'' \<noteq> lit ''en''" by (simp add: lit_def)
  have none: "findAnswer shelf_engine ?m \<lparr>opt_scope = Library, opt_bookId = None\<rparr> = Inr None"
    by (simp add: answer_eval)
  have tf: "fromEnglish backend_unavailable fallbackAnswer (lit ''fr'') =
              Inl TranslationUnavailable"
    using fr by (simp add: fromEnglish_def backend_unavailable_def)
  show ?thesis
    unfolding POST_translated [where te = english_passthrough and body = ?b,
        OF m ne english_passthrough_eq]
    by (simp add: sc bi tl ne none tf compose_baseAnswer_def)
qed

lemma findAnswer_invalid_scope:
  "findAnswer eng question \<lparr>opt_scope = Book, opt_bookId = None\<rparr> = Inl InvalidScope"
  by (simp add: findAnswer_def search_def)

text \<open>
  C1. For a request with scope \<open>"book"\<close> and no book id, the engine fails every search
  with InvalidScope before any candidate is considered. The handler has no check of its
  own: it hands scope and book id to \<open>findAnswer\<close> and the failure ends the call, so no
  answer translation takes place and no chat response, of book or of library scope, is
  produced.
\<close>

theorem POST_invalid_scope_rejected:
  assumes "req_scope body = Book" and "req_bookId body = None"
  shows "(\<forall>q. search eng q \<lparr>opt_scope = req_scope body, opt_bookId = req_bookId body\<rparr> =
               Inl InvalidScope) \<and>
         (\<forall>st r. snd (POST te (findAnswer eng) tf body) \<noteq>
                   Inr \<lparr>status = st, payload = ChatBody r\<rparr>) \<and>
         (\<forall>b l. TranslateFromEnglish b l \<notin> set (fst (POST te (findAnswer eng) tf body))) \<and>
         (\<forall>m tr. req_message body = Some m \<and> m \<noteq> [] \<and> te m = Inr tr \<longrightarrow>
               POST te (findAnswer eng) tf body =
                 ([TranslateToEnglish m,
                   FindAnswer (if tr_text tr \<noteq> [] then tr_text tr else m)
                     \<lparr>opt_scope = Book, opt_bookId = None\<rparr>],
                  Inl (Raised InvalidScope)))"
proof (intro conjI allI impI)
  fix q
  show "search eng q \<lparr>opt_scope = req_scope body, opt_bookId = req_bookId body\<rparr> =
          Inl InvalidScope"
    by (simp add: assms search_def)
next
  fix st r
  show "snd (POST te (findAnswer eng) tf body) \<noteq> Inr \<lparr>status = st, payload = ChatBody r\<rparr>"
  proof
    assume "snd (POST te (findAnswer eng) tf body) = Inr \<lparr>status = st, payload = ChatBody r\<rparr>"
    from POST_response_cases [OF this] show False
      by (auto simp: assms findAnswer_invalid_scope)
  qed
next
  fix b l
  show "TranslateFromEnglish b l \<notin> set (fst (POST te (findAnswer eng) tf body))"
    by (auto simp: POST_def Let_def assms findAnswer_invalid_scope
          split: sum.splits option.splits)
next
  fix m tr
  assume a: "req_message body = Some m \<and> m \<noteq> [] \<and> te m = Inr tr"
  then have m: "req_message body = Some m" and ne: "m \<noteq> []" and t: "te m = Inr tr"
    by simp_all
  show "POST te (findAnswer eng) tf body =
          ([TranslateToEnglish m,
            FindAnswer (if tr_text tr \<noteq> [] then tr_text tr else m)
              \<lparr>opt_scope = Book, opt_bookId = None\<rparr>],
           Inl (Raised InvalidScope))"
    unfolding POST_translated [where te = te and body = body, OF m ne t]
    by (simp add: assms findAnswer_invalid_scope)
qed

theorem POST_invalid_scope_rejected_witness:
  "req_scope (request [(''message'', ''carbon markets''), (''scope'', ''book'')]) = Book \<and>
   req_bookId (request [(''message'', ''carbon markets''), (''scope'', ''book'')]) = None \<and>
   POST english_passthrough (findAnswer shelf_engine) (fromEnglish backend_unavailable)
       (request [(''message'', ''carbon markets''), (''scope'', ''book'')]) =
     ([TranslateToEnglish (lit ''carbon markets''),
       FindAnswer (lit ''carbon markets'') \<lparr>opt_scope = Book, opt_bookId = None\<rparr>],
      Inl (Raised InvalidScope))"
proof -
  let ?b = "request [(''message'', ''carbon markets''), (''scope'', ''book'')]"
  let ?m = "lit ''carbon markets''"
  let ?tr = "\<lparr>tr_text = ?m, tr_detected = lit ''en''\<rparr>"
  have sc: "req_scope ?b = Book" by (simp add: request_eval)
  have bi: "req_bookId ?b = None" by (simp add: request_eval)
  have m: "req_message ?b = Some ?m" by (simp add: request_eval)
  have cm: "?m \<noteq> []" by (simp add: lit_def)
  from POST_invalid_scope_rejected [where body = ?b and te = english_passthrough
      and eng = shelf_engine and tf = "fromEnglish backend_unavailable", OF sc bi]
  have "req_message ?b = Some ?m \<and> ?m \<noteq> [] \<and> english_passthrough ?m = Inr ?tr \<longrightarrow>
        POST english_passthrough (findAnswer shelf_engine) (fromEnglish backend_unavailable) ?b =
          ([TranslateToEnglish ?m,
            FindAnswer (if tr_text ?tr \<noteq> [] then tr_text ?tr else ?m)
              \<lparr>opt_scope = Book, opt_bookId = None\<rparr>],
           Inl (Raised InvalidScope))"
    by blast
  then show ?thesis
    using sc bi m cm english_passthrough_eq [of ?m] by simp
qed

lemma set_insert_ranked: "set (insert_ranked c cs) = insert c (set cs)"
  by (induction cs) auto

lemma set_rank: "set (rank cs) = set cs"
  by (induction cs) (auto simp: set_insert_ranked)

lemma attach_supporting_entries:
  "map (\<lambda>c. (cd_entry c, cd_score c)) (attach_supporting eng q cs) =
   map (\<lambda>c. (cd_entry c, cd_score c)) cs"
  by (cases cs) (simp_all add: attach_supporting_def)

lemma attach_supporting_Nil: "attach_supporting eng q [] = []"
  by (simp add: attach_supporting_def)

lemma search_total:
  "\<not> (opt_scope opts = Book \<and> opt_bookId opts = None) \<Longrightarrow> \<exists>cs. search eng q opts = Inr cs"
  by (simp add: search_def)

lemma search_sound:
  assumes "search eng q opts = Inr cs" and "c \<in> set cs"
  shows "cd_entry c \<in> set (eg_index eng) \<and> in_scope opts (cd_entry c) \<and>
         shares_token q (cd_entry c)"
proof -
  let ?raw = "rank (map (\<lambda>e. \<lparr>cd_entry = e, cd_score = eg_score eng q e, cd_supporting = []\<rparr>)
                     (filter (\<lambda>e. in_scope opts e \<and> shares_token q e) (eg_index eng)))"
  have "cs = [] \<or> cs = attach_supporting eng q ?raw"
    using assms(1) by (auto simp: search_def split: if_splits)
  with assms(2) have cs: "cs = attach_supporting eng q ?raw" by auto
  have "(cd_entry c, cd_score c) \<in> set (map (\<lambda>c. (cd_entry c, cd_score c)) cs)"
    using assms(2) by force
  then have "(cd_entry c, cd_score c) \<in> set (map (\<lambda>c. (cd_entry c, cd_score c)) ?raw)"
    unfolding cs attach_supporting_entries .
  then have "cd_entry c \<in> set (filter (\<lambda>e. in_scope opts e \<and> shares_token q e) (eg_index eng))"
    by (auto simp: set_rank)
  then show ?thesis by simp
qed

lemma build_book_id:
  "e \<in> set (build norm corpus) \<Longrightarrow> book_id (en_book e) \<in> bk_id ` set corpus"
  by (auto simp: build_def index_book_def index_section_def in_set_enumerate_eq)


lemma findAnswer_no_candidates:
  "search eng (eg_normalize eng question) opts = Inr [] \<Longrightarrow>
   findAnswer eng question opts = Inr None"
  by (simp add: findAnswer_def compose_def)

lemma search_unknown_book:
  assumes "eg_index eng = build norm corpus" and "bid \<notin> bk_id ` set corpus"
  shows "search eng q \<lparr>opt_scope = Book, opt_bookId = Some bid\<rparr> = Inr []"
proof -
  have "filter (\<lambda>e. in_scope \<lparr>opt_scope = Book, opt_bookId = Some bid\<rparr> e \<and> shares_token q e)
          (eg_index eng) = []"
    using assms build_book_id [of _ norm corpus]
    by (auto simp: filter_empty_conv in_scope_def)
  then show ?thesis
    by (simp add: search_def attach_supporting_Nil)
qed

text \<open>
  C4. With scope \<open>book\<close> and a book id, \<open>search\<close> returns candidates, each of the book
  with that id, and no indexed paragraph of a book with another id is among them. When
  the index is built from a corpus that has no book with that id, there is no candidate,
  \<open>findAnswer\<close> has no answer, and the handler's response has \<open>found = false\<close>.
\<close>

theorem search_book_scope:
  "(\<exists>cs. search eng q \<lparr>opt_scope = Book, opt_bookId = Some bid\<rparr> = Inr cs \<and>
         (\<forall>c \<in> set cs. book_id (en_book (cd_entry c)) = bid) \<and>
         (\<forall>e \<in> set (eg_index eng). book_id (en_book e) \<noteq> bid \<longrightarrow> e \<notin> cd_entry ` set cs)) \<and>
   (eg_index eng = build (eg_normalize eng) corpus \<and> bid \<notin> bk_id ` set corpus \<longrightarrow>
      search eng q \<lparr>opt_scope = Book, opt_bookId = Some bid\<rparr> = Inr [] \<and>
      findAnswer eng question \<lparr>opt_scope = Book, opt_bookId = Some bid\<rparr> = Inr None \<and>
      (req_scope body = Book \<and> req_bookId body = Some bid \<and>
       req_message body = Some m \<and> m \<noteq> [] \<and> te m = Inr tr \<and>
       tf fallbackAnswer (req_targetLanguage body) = Inr t \<longrightarrow>
         snd (POST te (findAnswer eng) tf body) =
           Inr \<lparr>status = 200,
                payload = ChatBody
                  \<lparr>answer = t, baseAnswer = fallbackAnswer,
                   targetLanguage = req_targetLanguage body,
                   detectedLanguage = tr_detected tr, found = False, source = None\<rparr>\<rparr>))"
proof (intro conjI impI)
  let ?o = "\<lparr>opt_scope = Book, opt_bookId = Some bid\<rparr>"
  obtain cs where cs: "search eng q ?o = Inr cs"
    using search_total [of ?o eng q] by auto
  have ids: "\<forall>c \<in> set cs. book_id (en_book (cd_entry c)) = bid"
    using search_sound [OF cs] by (auto simp: in_scope_def)
  then have "\<forall>e \<in> set (eg_index eng). book_id (en_book e) \<noteq> bid \<longrightarrow> e \<notin> cd_entry ` set cs"
    by auto
  with cs ids show "\<exists>cs. search eng q ?o = Inr cs \<and>
         (\<forall>c \<in> set cs. book_id (en_book (cd_entry c)) = bid) \<and>
         (\<forall>e \<in> set (eg_index eng). book_id (en_book e) \<noteq> bid \<longrightarrow> e \<notin> cd_entry ` set cs)"
    by blast
next
  assume "eg_index eng = build (eg_normalize eng) corpus \<and> bid \<notin> bk_id ` set corpus"
  then show "search eng q \<lparr>opt_scope = Book, opt_bookId = Some bid\<rparr> = Inr []"
    using search_unknown_book by blast
next
  assume "eg_index eng = build (eg_normalize eng) corpus \<and> bid \<notin> bk_id ` set corpus"
  then show "findAnswer eng question \<lparr>opt_scope = Book, opt_bookId = Some bid\<rparr> = Inr None"
    using search_unknown_book findAnswer_no_candidates by blast
next
  assume a: "eg_index eng = build (eg_normalize eng) corpus \<and> bid \<notin> bk_id ` set corpus"
    and b: "req_scope body = Book \<and> req_bookId body = Some bid \<and>
       req_message body = Some m \<and> m \<noteq> [] \<and> te m = Inr tr \<and>
       tf fallbackAnswer (req_targetLanguage body) = Inr t"
  have none: "\<And>question. findAnswer eng question \<lparr>opt_scope = Book, opt_bookId = Some bid\<rparr> = Inr None"
    using a search_unknown_book findAnswer_no_candidates by blast
  from b have m: "req_message body = Some m" and ne: "m \<noteq> []" and te: "te m = Inr tr"
    by simp_all
  show "snd (POST te (findAnswer eng) tf body) =
           Inr \<lparr>status = 200,
                payload = ChatBody
                  \<lparr>answer = t, baseAnswer = fallbackAnswer,
                   targetLanguage = req_targetLanguage body,
                   detectedLanguage = tr_detected tr, found = False, source = None\<rparr>\<rparr>"
    unfolding POST_translated [where te = te and body = body, OF m ne te]
    using b by (simp add: none compose_baseAnswer_def source_of_def)
qed


theorem search_book_scope_witness:
  "search shelf_engine [lit ''carbon''] \<lparr>opt_scope = Book, opt_bookId = Some (lit ''opera'')\<rparr> =
     Inr [\<lparr>cd_entry = opera_entry, cd_score = 1, cd_supporting = []\<rparr>] \<and>
   book_id (en_book opera_entry) = lit ''opera'' \<and>
   eg_index shelf_engine = build (eg_normalize shelf_engine) shelf \<and>
   lit ''zzz'' \<notin> bk_id ` set shelf \<and>
   search shelf_engine [lit ''carbon''] \<lparr>opt_scope = Book, opt_bookId = Some (lit ''zzz'')\<rparr> =
     Inr [] \<and>
   snd (POST english_passthrough (findAnswer shelf_engine) (fromEnglish backend_unavailable)
          (request [(''message'', ''carbon''), (''scope'', ''book''), (''bookId'', ''zzz'')])) =
     Inr \<lparr>status = 200,
          payload = ChatBody
            \<lparr>answer = fallbackAnswer, baseAnswer = fallbackAnswer,
             targetLanguage = lit ''en'', detectedLanguage = lit ''en'',
             found = False, source = None\<rparr>\<rparr>"
proof -
  let ?b = "request [(''message'', ''carbon''), (''scope'', ''book''), (''bookId'', ''zzz'')]"
  let ?m = "lit ''carbon''"
  let ?tr = "\<lparr>tr_text = ?m, tr_detected = lit ''en''\<rparr>"
  have ev: "search shelf_engine [lit ''carbon'']
              \<lparr>opt_scope = Book, opt_bookId = Some (lit ''opera'')\<rparr> =
            Inr [\<lparr>cd_entry = opera_entry, cd_score = 1, cd_supporting = []\<rparr>]"
    by (simp add: shelf_eval shelf_engine_def)
  have ix: "eg_index shelf_engine = build (eg_normalize shelf_engine) shelf"
    by (simp add: shelf_engine_def)
  have un: "lit ''zzz'' \<notin> bk_id ` set shelf" by (simp add: shelf_def lit_def)
  have sc: "req_scope ?b = Book" by (simp add: request_eval)
  have bi: "req_bookId ?b = Some (lit ''zzz'')" by (simp add: request_eval)
  have m: "req_message ?b = Some ?m" by (simp add: request_eval)
  have ne: "?m \<noteq> []" by (simp add: lit_def)
  have tl: "req_targetLanguage ?b = lit ''en''" by (simp add: request_eval)
  have te: "english_passthrough ?m = Inr ?tr"
    by (rule english_passthrough_eq)
  have tf: "fromEnglish backend_unavailable fallbackAnswer (req_targetLanguage ?b) =
              Inr fallbackAnswer"
    by (simp add: tl fromEnglish_en)
  note w1 = search_book_scope [of shelf_engine "[lit ''carbon'']" "lit ''opera''"]
  note w2 = search_book_scope [where eng = shelf_engine and q = "[lit ''carbon'']"
      and bid = "lit ''zzz''" and corpus = shelf and body = ?b and te = english_passthrough
      and m = ?m and tr = ?tr and tf = "fromEnglish backend_unavailable"
      and t = fallbackAnswer]
  have id: "book_id (en_book opera_entry) = lit ''opera''"
    using w1 ev by simp
  have e0: "search shelf_engine [lit ''carbon'']
              \<lparr>opt_scope = Book, opt_bookId = Some (lit ''zzz'')\<rparr> = Inr []"
    using w2 ix un by blast
  have run: "snd (POST english_passthrough (findAnswer shelf_engine)
                    (fromEnglish backend_unavailable) ?b) =
     Inr \<lparr>status = 200,
          payload = ChatBody
            \<lparr>answer = fallbackAnswer, baseAnswer = fallbackAnswer,
             targetLanguage = req_targetLanguage ?b,
             detectedLanguage = tr_detected ?tr, found = False, source = None\<rparr>\<rparr>"
    using w2 ix un sc bi m ne te tf by blast
  show ?thesis using ev id ix un e0 run by (simp add: tl)
qed

lemma ranks_before_total: "ranks_before c d \<or> ranks_before d c"
  by (auto simp: ranks_before_def place_le_def)

lemma ranks_before_trans: "ranks_before a b \<Longrightarrow> ranks_before b c \<Longrightarrow> ranks_before a c"
  by (auto simp: ranks_before_def place_le_def)

lemma sorted_insert_ranked:
  "sorted_wrt ranks_before cs \<Longrightarrow> sorted_wrt ranks_before (insert_ranked c cs)"
proof (induction cs)
  case Nil
  then show ?case by simp
next
  case (Cons d ds)
  show ?case
  proof (cases "ranks_before c d")
    case True
    then have "\<forall>x \<in> set ds. ranks_before c x"
      using Cons.prems ranks_before_trans by auto
    with True Cons.prems show ?thesis by simp
  next
    case False
    then have "ranks_before d c" using ranks_before_total by blast
    with False Cons show ?thesis by (auto simp: set_insert_ranked)
  qed
qed

lemma sorted_rank: "sorted_wrt ranks_before (rank cs)"
  by (induction cs) (simp_all add: sorted_insert_ranked)

lemma sorted_attach_supporting:
  "sorted_wrt ranks_before cs \<Longrightarrow> sorted_wrt ranks_before (attach_supporting eng q cs)"
  by (cases cs) (auto simp: attach_supporting_def ranks_before_def)

lemma search_sorted:
  "search eng q opts = Inr cs \<Longrightarrow> sorted_wrt ranks_before cs"
  by (auto simp: search_def sorted_rank sorted_attach_supporting split: if_splits)

text \<open>
  C5. \<open>search\<close> depends on nothing but the engine with its index, the query tokens and
  the scope, so two calls on the same ones return the same list. In that list a
  candidate stands before every candidate of lower score, and of two candidates with
  equal scores the one of the earlier book stands first, then the one of the earlier
  section, then the one of the earlier paragraph.
\<close>

theorem search_ranked_deterministic:
  assumes "search eng q opts = Inr cs"
  shows "(\<forall>cs'. search eng q opts = Inr cs' \<longrightarrow> cs' = cs) \<and>
         (\<forall>i j. i < j \<and> j < length cs \<longrightarrow>
            cd_score (cs ! j) < cd_score (cs ! i) \<or>
            (cd_score (cs ! i) = cd_score (cs ! j) \<and>
             place_le (cd_entry (cs ! i)) (cd_entry (cs ! j))))"
proof -
  have "sorted_wrt ranks_before cs" using assms by (rule search_sorted)
  then have "\<forall>i j. i < j \<and> j < length cs \<longrightarrow> ranks_before (cs ! i) (cs ! j)"
    by (simp add: sorted_wrt_iff_nth_less)
  then show ?thesis using assms by (simp add: ranks_before_def)
qed

theorem search_ranked_deterministic_witness:
  "search shelf_engine [lit ''carbon''] \<lparr>opt_scope = Library, opt_bookId = None\<rparr> =
     Inr [\<lparr>cd_entry = atlas_entry, cd_score = 1, cd_supporting = []\<rparr>,
          \<lparr>cd_entry = opera_entry, cd_score = 1, cd_supporting = []\<rparr>] \<and>
   place_le atlas_entry opera_entry"
proof -
  let ?cs = "[\<lparr>cd_entry = atlas_entry, cd_score = 1::nat, cd_supporting = []\<rparr>,
          \<lparr>cd_entry = opera_entry, cd_score = 1, cd_supporting = []\<rparr>]"
  have ev: "search shelf_engine [lit ''carbon''] \<lparr>opt_scope = Library, opt_bookId = None\<rparr> =
     Inr ?cs"
    by (simp add: shelf_eval shelf_engine_def)
  from search_ranked_deterministic [OF ev]
  have "\<forall>i j. i < j \<and> j < length ?cs \<longrightarrow>
            cd_score (?cs ! j) < cd_score (?cs ! i) \<or>
            (cd_score (?cs ! i) = cd_score (?cs ! j) \<and>
             place_le (cd_entry (?cs ! i)) (cd_entry (?cs ! j)))"
    by blast
  then have "(0::nat) < 1 \<and> 1 < length ?cs \<longrightarrow>
            cd_score (?cs ! 1) < cd_score (?cs ! 0) \<or>
            (cd_score (?cs ! 0) = cd_score (?cs ! 1) \<and>
             place_le (cd_entry (?cs ! 0)) (cd_entry (?cs ! 1)))"
    by blast
  then have "place_le atlas_entry opera_entry" by simp
  with ev show ?thesis by simp
qed

end
